theory Spec2Isabelle
  imports Complex_Main "HOL-Library.Log_Nat"
begin

section \<open>Data model\<close>

text \<open>
  The rows the routes of \<^verbatim>\<open>backend/routes/index.js\<close> read and write. A product row
  carries the columns the document routes and the delivery page use (id, name, unit of
  measure, stock); a document row is a receipt or a delivery header (both tables have
  the same shape: the human-readable code is the column \<^verbatim>\<open>receipt_id\<close> or
  \<^verbatim>\<open>delivery_id\<close>, the party is \<^verbatim>\<open>supplier\<close> or \<^verbatim>\<open>customer\<close>). The status column
  is optional: the update routes store the request's status as it is, and a request
  without one stores NULL. Quantities are exact numbers here; the rounding of
  JavaScript's doubles is not part of the model.
\<close>

record product =
  p_id :: nat
  p_name :: string
  uom :: string
  stock :: real

record item =
  productId :: nat
  quantity :: real

record document =
  d_id :: nat
  code :: string
  party :: string
  date :: string
  status :: "string option"

text \<open>
  A row of \<^verbatim>\<open>receipt_items\<close> or \<^verbatim>\<open>delivery_items\<close>: the owning document's id with
  the product and the quantity.
\<close>

type_synonym line = "nat \<times> item"

text \<open>
  Modelled from the spec: the table declarations are not among the sources. The store
  holds the five tables the routes query and, for each document table, the counter
  from which the database assigns the numeric id of a new row (the spec's internal
  numeric identifier; the \<^verbatim>\<open>RETURNING id\<close> of the inserts). Constraints the tables may
  declare beyond that (uniqueness of the code, foreign keys, checks on a column) are
  not modelled.
\<close>

record store =
  products :: "product list"
  receipts :: "document list"
  receipt_items :: "line list"
  deliveries :: "document list"
  delivery_items :: "line list"
  receipts_seq :: nat
  deliveries_seq :: nat

text \<open>
  The body of a create or update request: \<^verbatim>\<open>{supplier | customer, date, status, items}\<close>.
  A missing status or item list is \<open>None\<close>.
\<close>

record payload =
  b_party :: string
  b_date :: string
  b_status :: "string option"
  b_items :: "item list option"

text \<open>
  What a route answers: the JSON of a document with its items and \<^verbatim>\<open>totalItems\<close>.
\<close>

record summary =
  s_doc :: document
  s_items :: "item list"
  totalItems :: real

text \<open>
  The replies of the document routes: 200 with the listing, 201 or 200 with the saved
  document, 200 after a validation or a deletion, 404 (not found), 400 (already
  validated), 500 (the \<^verbatim>\<open>catch\<close> branch), and \<open>Unrouted\<close> when none of the receipt or
  delivery routes matches the request: then no handler of these routes runs and the
  store stays as it is.
\<close>

datatype reply =
    Listing "summary list"
  | Saved summary
  | Validated
  | Deleted
  | NotFound
  | AlreadyValidated
  | Failed
  | Unrouted

datatype verb = GET | POST | PUT | DELETE

section \<open>Identifier generation\<close>

text \<open>
  \<^verbatim>\<open>String(n)\<close> for a natural number, \<^verbatim>\<open>padStart(w, c)\<close> for a one-character pad,
  and the reading of a decimal numeral (the route parameter \<^verbatim>\<open>:id\<close> compared with the
  numeric id column).
\<close>

definition digitChar :: "nat \<Rightarrow> char" where
  "digitChar d = ''0123456789'' ! d"

definition isDigit :: "char \<Rightarrow> bool" where
  "isDigit c = (48 \<le> (of_char c :: nat) \<and> (of_char c :: nat) \<le> 57)"

definition digitVal :: "char \<Rightarrow> nat" where
  "digitVal c = of_char c - 48"

function decimal :: "nat \<Rightarrow> string" where
  "decimal n = (if n < 10 then [digitChar n] else decimal (n div 10) @ [digitChar (n mod 10)])"
  by pat_completeness auto
termination
  by (relation "measure id") auto

definition padStart :: "nat \<Rightarrow> char \<Rightarrow> string \<Rightarrow> string" where
  "padStart w c s = replicate (w - length s) c @ s"

fun readDigits :: "nat \<Rightarrow> string \<Rightarrow> nat option" where
  "readDigits acc [] = Some acc"
| "readDigits acc (c # cs) =
     (if isDigit c then readDigits (10 * acc + digitVal c) cs else None)"

definition parseId :: "string \<Rightarrow> nat option" where
  "parseId s = (if s = [] then None else readDigits 0 s)"

section \<open>Queries\<close>

text \<open>The items of one document, in row order: \<^verbatim>\<open>SELECT ... WHERE receipt_id = $1\<close>.\<close>

definition linesOf :: "nat \<Rightarrow> line list \<Rightarrow> item list" where
  "linesOf did rows = map snd (filter (\<lambda>row. fst row = did) rows)"

text \<open>\<^verbatim>\<open>COALESCE((SELECT SUM(quantity) ... WHERE receipt_id = r.id), 0)\<close>.\<close>

definition sumQuantity :: "nat \<Rightarrow> line list \<Rightarrow> real" where
  "sumQuantity did rows = sum_list (map quantity (linesOf did rows))"

text \<open>The running total of the insert loops: \<^verbatim>\<open>totalItems += item.quantity\<close>.\<close>

definition runningTotal :: "item list \<Rightarrow> real" where
  "runningTotal its = foldl (\<lambda>t i. t + quantity i) 0 its"

text \<open>\<^verbatim>\<open>UPDATE products SET stock = stock + $1 WHERE id = $2\<close>.\<close>

definition addStock :: "real \<Rightarrow> nat \<Rightarrow> product list \<Rightarrow> product list" where
  "addStock q pid ps = map (\<lambda>p. if p_id p = pid then p\<lparr>stock := stock p + q\<rparr> else p) ps"

text \<open>
  Modelled from the spec: the table declarations are not among the sources; the spec
  gives the line tables a cascading deletion, so the lines of a deleted document are
  deleted with it.
\<close>

definition cascade :: "nat \<Rightarrow> line list \<Rightarrow> line list" where
  "cascade did rows = filter (\<lambda>row. fst row \<noteq> did) rows"

text \<open>\<^verbatim>\<open>items || []\<close> and \<^verbatim>\<open>status || 'draft'\<close>.\<close>

definition itemsOr :: "item list option \<Rightarrow> item list" where
  "itemsOr x = (case x of None \<Rightarrow> [] | Some its \<Rightarrow> its)"

definition statusOr :: "string option \<Rightarrow> string" where
  "statusOr x = (case x of None \<Rightarrow> ''draft'' | Some s \<Rightarrow> if s = [] then ''draft'' else s)"

section \<open>Receipt routes\<close>

text \<open>
  \<^verbatim>\<open>GET /receipts\<close>: one summary per receipt, with its items and the sum of their
  quantities. The order of the listing (by date, then creation time) is not modelled:
  the summaries come in row order.
\<close>

definition receiptSummary :: "store \<Rightarrow> document \<Rightarrow> summary" where
  "receiptSummary st r =
     \<lparr>s_doc = r, s_items = linesOf (d_id r) (receipt_items st),
      totalItems = sumQuantity (d_id r) (receipt_items st)\<rparr>"

definition listReceipts :: "store \<Rightarrow> store \<times> reply" where
  "listReceipts st = (st, Listing (map (receiptSummary st) (receipts st)))"

text \<open>\<^verbatim>\<open>POST /receipts\<close>.\<close>

definition createReceipt :: "payload \<Rightarrow> store \<Rightarrow> store \<times> reply" where
  "createReceipt b st =
     (let receiptNumber = length (receipts st) + 1;
          receiptId = ''RCP-'' @ padStart 3 (CHR ''0'') (decimal receiptNumber);
          receipt = \<lparr>d_id = receipts_seq st, code = receiptId, party = b_party b,
                     date = b_date b, status = Some (statusOr (b_status b))\<rparr>;
          its = itemsOr (b_items b)
      in (st\<lparr>receipts := receipts st @ [receipt],
              receipt_items := receipt_items st @ map (Pair (d_id receipt)) its,
              receipts_seq := Suc (receipts_seq st)\<rparr>,
          Saved \<lparr>s_doc = receipt, s_items = its, totalItems = runningTotal its\<rparr>))"

text \<open>
  \<^verbatim>\<open>PUT /receipts/:id\<close>: the header is overwritten (status included, whatever it was),
  the old items are deleted and the new ones inserted.
\<close>

definition updateReceipt :: "nat \<Rightarrow> payload \<Rightarrow> store \<Rightarrow> store \<times> reply" where
  "updateReceipt rid b st =
     (case find (\<lambda>r. d_id r = rid) (receipts st) of
        None \<Rightarrow> (st, NotFound)
      | Some old \<Rightarrow>
          (let upd = (\<lambda>r. r\<lparr>party := b_party b, date := b_date b, status := b_status b\<rparr>);
               its = itemsOr (b_items b)
           in (st\<lparr>receipts := map (\<lambda>r. if d_id r = rid then upd r else r) (receipts st),
                   receipt_items :=
                     filter (\<lambda>row. fst row \<noteq> rid) (receipt_items st) @ map (Pair rid) its\<rparr>,
               Saved \<lparr>s_doc = upd old, s_items = its, totalItems = runningTotal its\<rparr>)))"

text \<open>
  \<^verbatim>\<open>POST /receipts/:id/validate\<close>: 404 when no receipt has the id, 400 when its status
  is \<^verbatim>\<open>'done'\<close>; otherwise one stock update per item row, then the status becomes
  \<^verbatim>\<open>'done'\<close>.
\<close>

definition validateReceipt :: "nat \<Rightarrow> store \<Rightarrow> store \<times> reply" where
  "validateReceipt rid st =
     (case find (\<lambda>r. d_id r = rid) (receipts st) of
        None \<Rightarrow> (st, NotFound)
      | Some receipt \<Rightarrow>
          if status receipt = Some ''done'' then (st, AlreadyValidated)
          else
            (st\<lparr>products :=
                   fold (\<lambda>i. addStock (quantity i) (productId i))
                     (linesOf rid (receipt_items st)) (products st),
                 receipts :=
                   map (\<lambda>r. if d_id r = rid then r\<lparr>status := Some ''done''\<rparr> else r)
                     (receipts st)\<rparr>,
             Validated))"

text \<open>
  \<^verbatim>\<open>DELETE /receipts/:id\<close>: 404 when no receipt has the id; otherwise the header is
  deleted, and the table's cascade takes its items.
\<close>

definition deleteReceipt :: "nat \<Rightarrow> store \<Rightarrow> store \<times> reply" where
  "deleteReceipt rid st =
     (case find (\<lambda>r. d_id r = rid) (receipts st) of
        None \<Rightarrow> (st, NotFound)
      | Some old \<Rightarrow>
          (st\<lparr>receipts := filter (\<lambda>r. d_id r \<noteq> rid) (receipts st),
               receipt_items := cascade rid (receipt_items st)\<rparr>,
           Deleted))"

section \<open>Delivery routes\<close>

text \<open>\<^verbatim>\<open>GET /deliveries\<close>, as for receipts.\<close>

definition deliverySummary :: "store \<Rightarrow> document \<Rightarrow> summary" where
  "deliverySummary st d =
     \<lparr>s_doc = d, s_items = linesOf (d_id d) (delivery_items st),
      totalItems = sumQuantity (d_id d) (delivery_items st)\<rparr>"

definition listDeliveries :: "store \<Rightarrow> store \<times> reply" where
  "listDeliveries st = (st, Listing (map (deliverySummary st) (deliveries st)))"

text \<open>\<^verbatim>\<open>POST /deliveries\<close>.\<close>

definition createDelivery :: "payload \<Rightarrow> store \<Rightarrow> store \<times> reply" where
  "createDelivery b st =
     (let deliveryNumber = length (deliveries st) + 1;
          deliveryId = ''DEL-'' @ padStart 3 (CHR ''0'') (decimal deliveryNumber);
          delivery = \<lparr>d_id = deliveries_seq st, code = deliveryId, party = b_party b,
                      date = b_date b, status = Some (statusOr (b_status b))\<rparr>;
          its = itemsOr (b_items b)
      in (st\<lparr>deliveries := deliveries st @ [delivery],
              delivery_items := delivery_items st @ map (Pair (d_id delivery)) its,
              deliveries_seq := Suc (deliveries_seq st)\<rparr>,
          Saved \<lparr>s_doc = delivery, s_items = its, totalItems = runningTotal its\<rparr>))"

text \<open>\<^verbatim>\<open>PUT /deliveries/:id\<close>.\<close>

definition updateDelivery :: "nat \<Rightarrow> payload \<Rightarrow> store \<Rightarrow> store \<times> reply" where
  "updateDelivery did b st =
     (case find (\<lambda>d. d_id d = did) (deliveries st) of
        None \<Rightarrow> (st, NotFound)
      | Some old \<Rightarrow>
          (let upd = (\<lambda>d. d\<lparr>party := b_party b, date := b_date b, status := b_status b\<rparr>);
               its = itemsOr (b_items b)
           in (st\<lparr>deliveries := map (\<lambda>d. if d_id d = did then upd d else d) (deliveries st),
                   delivery_items :=
                     filter (\<lambda>row. fst row \<noteq> did) (delivery_items st) @ map (Pair did) its\<rparr>,
               Saved \<lparr>s_doc = upd old, s_items = its, totalItems = runningTotal its\<rparr>)))"

text \<open>\<^verbatim>\<open>DELETE /deliveries/:id\<close>, as for receipts.\<close>

definition deleteDelivery :: "nat \<Rightarrow> store \<Rightarrow> store \<times> reply" where
  "deleteDelivery did st =
     (case find (\<lambda>d. d_id d = did) (deliveries st) of
        None \<Rightarrow> (st, NotFound)
      | Some old \<Rightarrow>
          (st\<lparr>deliveries := filter (\<lambda>d. d_id d \<noteq> did) (deliveries st),
               delivery_items := cascade did (delivery_items st)\<rparr>,
           Deleted))"

section \<open>The document routes of the router\<close>

text \<open>
  A route with an \<^verbatim>\<open>:id\<close> parameter hands the text of the parameter to the query, which
  compares it with a numeric column; a text that is no numeral makes the query fail,
  and the \<^verbatim>\<open>catch\<close> branch answers 500 with nothing changed.
\<close>

definition withId :: "string \<Rightarrow> (nat \<Rightarrow> store \<Rightarrow> store \<times> reply) \<Rightarrow> store \<Rightarrow> store \<times> reply" where
  "withId s handler st = (case parseId s of None \<Rightarrow> (st, Failed) | Some n \<Rightarrow> handler n st)"

text \<open>
  The routes registered under \<^verbatim>\<open>/receipts\<close> and \<^verbatim>\<open>/deliveries\<close>, by verb and path
  (the path split at its slashes). Receipts have five routes: list, create, update,
  validate, delete. Deliveries have four: list, create, update, delete. The other
  routes of the router (health, data, products) and the two routers it mounts
  (\<^verbatim>\<open>auth.js\<close> under \<^verbatim>\<open>/auth\<close>, \<^verbatim>\<open>db-check.js\<close>, whose files are not among the
  sources) are outside these paths and are not modelled.
\<close>

definition serve :: "verb \<Rightarrow> string list \<Rightarrow> payload \<Rightarrow> store \<Rightarrow> store \<times> reply" where
  "serve v path b st =
     (case path of
        [r] \<Rightarrow>
          if r = ''receipts'' then
            (case v of GET \<Rightarrow> listReceipts st | POST \<Rightarrow> createReceipt b st
             | _ \<Rightarrow> (st, Unrouted))
          else if r = ''deliveries'' then
            (case v of GET \<Rightarrow> listDeliveries st | POST \<Rightarrow> createDelivery b st
             | _ \<Rightarrow> (st, Unrouted))
          else (st, Unrouted)
      | [r, i] \<Rightarrow>
          if r = ''receipts'' then
            (case v of PUT \<Rightarrow> withId i (\<lambda>n. updateReceipt n b) st
             | DELETE \<Rightarrow> withId i deleteReceipt st
             | _ \<Rightarrow> (st, Unrouted))
          else if r = ''deliveries'' then
            (case v of PUT \<Rightarrow> withId i (\<lambda>n. updateDelivery n b) st
             | DELETE \<Rightarrow> withId i deleteDelivery st
             | _ \<Rightarrow> (st, Unrouted))
          else (st, Unrouted)
      | [r, i, a] \<Rightarrow>
          if r = ''receipts'' \<and> a = ''validate'' \<and> v = POST
          then withId i validateReceipt st
          else (st, Unrouted)
      | _ \<Rightarrow> (st, Unrouted))"

section \<open>JavaScript numbers\<close>

text \<open>
  The page computes with JavaScript numbers: IEEE 754 binary64 with rounding to the
  nearest number, ties to the even one. A number is the real it denotes; the result of
  an operation is the exact result rounded. \<open>exponent x\<close> is the binary exponent of a
  real other than zero (the \<open>e\<close> with \<open>2^e \<le> |x| < 2^(e+1)\<close>); the numbers around \<open>x\<close> are
  the multiples of \<open>2^(e - 52)\<close>, and for the subnormal numbers of \<open>2^(- 1074)\<close>. NaN
  and the infinities are not values of the model: a result beyond the largest double
  is here a real larger than every double, which compares with the doubles as
  \<^verbatim>\<open>Infinity\<close> does.
\<close>

definition exponent :: "real \<Rightarrow> int" where
  "exponent x =
     (let a = \<bar>x\<bar> in
      if 1 \<le> a then bitlen \<lfloor>a\<rfloor> - 1
      else (let k = bitlen \<lfloor>1 / a\<rfloor> - 1 in if a * 2 ^ nat k = 1 then - k else - k - 1))"

definition roundHalfEven :: "real \<Rightarrow> int" where
  "roundHalfEven y =
     (let f = \<lfloor>y\<rfloor>; d = y - of_int f in
      if d < 1 / 2 then f else if 1 / 2 < d then f + 1 else if even f then f else f + 1)"

definition fl64 :: "real \<Rightarrow> real" where
  "fl64 x =
     (if x = 0 then 0
      else (let e = max (exponent x) (- 1022); u = 2 powi (e - 52)
            in of_int (roundHalfEven (x / u)) * u))"

text \<open>The operators \<^verbatim>\<open>+\<close> and \<^verbatim>\<open>-\<close> on numbers.\<close>

definition addD :: "real \<Rightarrow> real \<Rightarrow> real" where
  "addD x y = fl64 (x + y)"

definition subD :: "real \<Rightarrow> real \<Rightarrow> real" where
  "subD x y = fl64 (x - y)"

text \<open>
  \<^verbatim>\<open>parseFloat\<close> of the text of a decimal numeral: the number nearest to the real the
  text denotes.
\<close>

definition parseFloat :: "real \<Rightarrow> real" where
  "parseFloat q = fl64 q"

section \<open>The delivery page\<close>

text \<open>
  \<^verbatim>\<open>handleAddItem\<close> of \<^verbatim>\<open>Deliveries.jsx\<close>. The two fields of the item form are read as
  the page's inputs deliver them: the product select holds nothing or a product id;
  the number input holds nothing or the text of a decimal numeral, given here by the
  real the text denotes. The quantities of the items and the stocks of the products
  are numbers (the items as \<^verbatim>\<open>handleAddItem\<close> itself stores them), and the sums, the
  difference and the comparison are those of JavaScript numbers. The outcome is one
  of: the validation message (\<open>InvalidItem\<close>), the silent return when no product has
  the id (\<open>UnknownProduct\<close>), the insufficient-stock message with the available quantity
  and the unit it prints, or the new item list.
\<close>

record itemForm =
  f_productId :: "nat option"
  f_quantity :: "real option"

datatype addOutcome =
    InvalidItem
  | UnknownProduct
  | InsufficientStock real string
  | Added "item list"

text \<open>
  \<^verbatim>\<open>formData.items.filter(...).reduce((sum, item) => sum + item.quantity, 0)\<close>.
\<close>

definition existingQuantity :: "nat \<Rightarrow> item list \<Rightarrow> real" where
  "existingQuantity pid its =
     foldl (\<lambda>s i. addD s (quantity i)) 0 (filter (\<lambda>i. productId i = pid) its)"

definition handleAddItem :: "product list \<Rightarrow> item list \<Rightarrow> itemForm \<Rightarrow> addOutcome" where
  "handleAddItem prods its form =
     (case (f_productId form, f_quantity form) of
        (Some pid, Some q) \<Rightarrow>
          if parseFloat q \<le> 0 then InvalidItem
          else
            (case find (\<lambda>p. p_id p = pid) prods of
               None \<Rightarrow> UnknownProduct
             | Some product \<Rightarrow>
                 (let requestedQuantity = parseFloat q;
                      totalRequested = addD (existingQuantity pid its) requestedQuantity
                  in if totalRequested > stock product
                     then InsufficientStock
                            (subD (stock product) (existingQuantity pid its)) (uom product)
                     else Added (its @ [\<lparr>productId = pid, quantity = requestedQuantity\<rparr>])))
      | _ \<Rightarrow> InvalidItem)"

text \<open>
  The two "Total Items" figures of the page: the column of the deliveries table prints
  the \<^verbatim>\<open>totalItems\<close> of the listing; the line under the item table of the dialog prints
  \<^verbatim>\<open>formData.items.length\<close>.
\<close>

definition tableTotalItems :: "summary \<Rightarrow> real" where
  "tableTotalItems s = totalItems s"

definition dialogTotalItems :: "item list \<Rightarrow> nat" where
  "dialogTotalItems its = length its"

text \<open>The code a route's reply carries, when it carries a document.\<close>

definition replyCode :: "reply \<Rightarrow> string option" where
  "replyCode r = (case r of Saved s \<Rightarrow> Some (code (s_doc s)) | _ \<Rightarrow> None)"

definition emptyStore :: store where
  "emptyStore =
     \<lparr>products = [], receipts = [], receipt_items = [], deliveries = [],
      delivery_items = [], receipts_seq = 1, deliveries_seq = 1\<rparr>"

definition draftOf :: "string \<Rightarrow> item list \<Rightarrow> payload" where
  "draftOf who its =
     \<lparr>b_party = who, b_date = ''2025-01-01'', b_status = None, b_items = Some its\<rparr>"

section \<open>Notions the claims use\<close>

text \<open>The sum of the quantities of the lines of one product in a line set.\<close>

definition quantityFor :: "nat \<Rightarrow> item list \<Rightarrow> real" where
  "quantityFor pid its = sum_list (map quantity (filter (\<lambda>i. productId i = pid) its))"

text \<open>
  The quantity a receipt holds for one product, read off the rows of the item table:
  the sum of the quantities of the rows of that receipt and that product.
\<close>

fun receivedFor :: "nat \<Rightarrow> nat \<Rightarrow> line list \<Rightarrow> real" where
  "receivedFor rid pid [] = 0"
| "receivedFor rid pid (row # rows) =
     (if fst row = rid \<and> productId (snd row) = pid then quantity (snd row) else 0)
       + receivedFor rid pid rows"

text \<open>
  The quantity a line set under composition already holds for one product, as the
  page's numbers add up: starting from the accumulator, the quantities of the
  product's lines are added one after the other in the order of the set, each sum
  rounded.
\<close>

fun reservedFrom :: "real \<Rightarrow> nat \<Rightarrow> item list \<Rightarrow> real" where
  "reservedFrom acc pid [] = acc"
| "reservedFrom acc pid (i # its) =
     reservedFrom (if productId i = pid then addD acc (quantity i) else acc) pid its"

text \<open>Every product's stock is at least zero; every receipt line's quantity is.\<close>

definition stocksNonneg :: "store \<Rightarrow> bool" where
  "stocksNonneg st = list_all (\<lambda>p. 0 \<le> stock p) (products st)"

definition quantitiesNonneg :: "store \<Rightarrow> bool" where
  "quantitiesNonneg st = list_all (\<lambda>row. 0 \<le> quantity (snd row)) (receipt_items st)"

text \<open>
  A validation request for a document: \<^verbatim>\<open>POST /<resource>/<id>/validate\<close>, which has
  no body.
\<close>

definition noBody :: payload where
  "noBody = \<lparr>b_party = [], b_date = [], b_status = None, b_items = None\<rparr>"

definition requestValidation :: "string \<times> string \<Rightarrow> store \<Rightarrow> store" where
  "requestValidation rq st = fst (serve POST [fst rq, snd rq, ''validate''] noBody st)"

text \<open>
  Stores for the examples. \<open>shelf\<close>: two products (stock 10 and 0), a draft receipt with
  three lines, two of them for the first product, and a draft delivery with two lines.
  \<open>depot\<close>: the same products and two draft receipts whose item rows alternate in the
  table. \<open>scenario\<close>: the spec's product P with stock 10, and the delivery that
  \<^verbatim>\<open>POST /deliveries\<close> creates with the line (P, 4). \<open>dispatched\<close>: the scenario after an
  update has stored the status \<open>done\<close> for that delivery. \<open>shortfall\<close>: the spec's product
  P with stock 6, and the delivery that \<^verbatim>\<open>POST /deliveries\<close> creates with the line
  (P, 20).
\<close>

definition shelf :: store where
  "shelf =
     \<lparr>products = [\<lparr>p_id = 1, p_name = ''bolt'', uom = ''pcs'', stock = 10\<rparr>,
                  \<lparr>p_id = 2, p_name = ''nut'', uom = ''pcs'', stock = 0\<rparr>],
      receipts = [\<lparr>d_id = 1, code = ''RCP-001'', party = ''acme'', date = ''2025-01-01'',
                   status = Some ''draft''\<rparr>],
      receipt_items = [(1, \<lparr>productId = 1, quantity = 4\<rparr>),
                       (1, \<lparr>productId = 1, quantity = 3\<rparr>),
                       (1, \<lparr>productId = 2, quantity = 5\<rparr>)],
      deliveries = [\<lparr>d_id = 1, code = ''DEL-001'', party = ''bob'', date = ''2025-01-02'',
                     status = Some ''draft''\<rparr>],
      delivery_items = [(1, \<lparr>productId = 1, quantity = 5\<rparr>),
                        (1, \<lparr>productId = 2, quantity = 2\<rparr>)],
      receipts_seq = 2, deliveries_seq = 2\<rparr>"

definition scenario :: store where
  "scenario =
     fst (serve POST [''deliveries''] (draftOf ''bob'' [\<lparr>productId = 1, quantity = 4\<rparr>])
       (emptyStore\<lparr>products := [\<lparr>p_id = 1, p_name = ''P'', uom = ''kg'', stock = 10\<rparr>]\<rparr>))"

definition depot :: store where
  "depot =
     \<lparr>products = [\<lparr>p_id = 1, p_name = ''bolt'', uom = ''pcs'', stock = 10\<rparr>,
                  \<lparr>p_id = 2, p_name = ''nut'', uom = ''pcs'', stock = 0\<rparr>],
      receipts = [\<lparr>d_id = 1, code = ''RCP-001'', party = ''acme'', date = ''2025-01-01'',
                   status = Some ''draft''\<rparr>,
                  \<lparr>d_id = 2, code = ''RCP-002'', party = ''zeta'', date = ''2025-01-03'',
                   status = Some ''draft''\<rparr>],
      receipt_items = [(1, \<lparr>productId = 1, quantity = 4\<rparr>),
                       (2, \<lparr>productId = 1, quantity = 100\<rparr>),
                       (1, \<lparr>productId = 1, quantity = 3\<rparr>),
                       (2, \<lparr>productId = 2, quantity = 50\<rparr>),
                       (1, \<lparr>productId = 2, quantity = 5\<rparr>)],
      deliveries = [], delivery_items = [],
      receipts_seq = 3, deliveries_seq = 1\<rparr>"


definition shortfall :: store where
  "shortfall =
     fst (serve POST [''deliveries''] (draftOf ''bob'' [\<lparr>productId = 1, quantity = 20\<rparr>])
       (emptyStore\<lparr>products := [\<lparr>p_id = 1, p_name = ''P'', uom = ''kg'', stock = 6\<rparr>]\<rparr>))"

section \<open>Basic facts\<close>

declare decimal.simps [simp del]

lemma runningTotal_sum: "runningTotal its = sum_list (map quantity its)"
proof -
  have "foldl (\<lambda>t i. t + quantity i) a its = a + sum_list (map quantity its)" for a
    by (induction its arbitrary: a) simp_all
  then show ?thesis by (simp add: runningTotal_def)
qed

lemma digitChar_digit:
  assumes "d < 10"
  shows "isDigit (digitChar d) \<and> digitVal (digitChar d) = d"
proof -
  from assms have "d \<in> {0, 1, 2, 3, 4, 5, 6, 7, 8, 9}" by auto
  then show ?thesis
    by (auto simp: isDigit_def digitVal_def digitChar_def)
qed

lemma readDigits_append:
  "readDigits a (xs @ ys) =
     (case readDigits a xs of None \<Rightarrow> None | Some a' \<Rightarrow> readDigits a' ys)"
  by (induction xs arbitrary: a) auto

lemma readDigits_decimal: "readDigits 0 (decimal n) = Some n"
proof (induction n rule: decimal.induct)
  case (1 n)
  show ?case
  proof (cases "n < 10")
    case True
    then show ?thesis by (subst decimal.simps) (simp add: digitChar_digit)
  next
    case False
    with 1 have ih: "readDigits 0 (decimal (n div 10)) = Some (n div 10)" by simp
    have d: "n mod 10 < 10" by simp
    show ?thesis
      using False ih digitChar_digit [OF d]
      by (subst decimal.simps) (simp add: readDigits_append)
  qed
qed

lemma decimal_nonempty: "decimal n \<noteq> []"
  by (subst decimal.simps) simp

lemma readDigits_zeros: "readDigits 0 (replicate k (CHR ''0'') @ s) = readDigits 0 s"
  by (induction k) (simp_all add: isDigit_def digitVal_def)

lemma parseId_padStart: "parseId (padStart w (CHR ''0'') (decimal n)) = Some n"
  by (simp add: parseId_def padStart_def readDigits_zeros readDigits_decimal decimal_nonempty)

lemma length_padStart: "length (padStart w c s) = max w (length s)"
  by (simp add: padStart_def)

lemma createReceipt_count:
  "length (receipts (fst (createReceipt b st))) = Suc (length (receipts st))"
  by (simp add: createReceipt_def Let_def)

lemma createReceipt_code:
  "replyCode (snd (createReceipt b st)) =
     Some (''RCP-'' @ padStart 3 (CHR ''0'') (decimal (length (receipts st) + 1)))"
  by (simp add: createReceipt_def Let_def replyCode_def)

lemma createDelivery_code:
  "replyCode (snd (createDelivery b st)) =
     Some (''DEL-'' @ padStart 3 (CHR ''0'') (decimal (length (deliveries st) + 1)))"
  by (simp add: createDelivery_def Let_def replyCode_def)

lemma createReceipt_stored:
  "code (last (receipts (fst (createReceipt b st)))) =
     ''RCP-'' @ padStart 3 (CHR ''0'') (decimal (length (receipts st) + 1))"
  by (simp add: createReceipt_def Let_def)

lemma createDelivery_stored:
  "code (last (deliveries (fst (createDelivery b st)))) =
     ''DEL-'' @ padStart 3 (CHR ''0'') (decimal (length (deliveries st) + 1))"
  by (simp add: createDelivery_def Let_def)

lemma replicate_two: "replicate 2 c = [c, c]"
  by (simp add: numeral_2_eq_2)

lemma padded_small:
  "padStart 3 (CHR ''0'') (decimal (Suc 0)) = ''001''"
  "padStart 3 (CHR ''0'') (decimal (Suc (Suc 0))) = ''002''"
  "padStart 3 (CHR ''0'') (decimal (Suc (Suc (Suc 0)))) = ''003''"
  by (simp_all add: decimal.simps digitChar_def padStart_def replicate_two)

section \<open>Facts about JavaScript numbers\<close>

lemma roundHalfEven_near: "\<bar>of_int (roundHalfEven y) - y\<bar> \<le> 1 / 2"
  unfolding roundHalfEven_def Let_def by (auto simp: abs_if) linarith+

lemma roundHalfEven_of_int: "roundHalfEven (of_int n) = n"
  by (simp add: roundHalfEven_def)

lemma roundHalfEven_nonpos: "y \<le> 0 \<Longrightarrow> roundHalfEven y \<le> 0"
  unfolding roundHalfEven_def Let_def
  by (auto simp: floor_le_zero) (linarith+)?

lemma exponent_bounds:
  assumes "x \<noteq> 0"
  shows "2 powi exponent x \<le> \<bar>x\<bar> \<and> \<bar>x\<bar> < 2 powi (exponent x + 1)"
proof (cases "1 \<le> \<bar>x\<bar>")
  case True
  define n where "n = \<lfloor>\<bar>x\<bar>\<rfloor>"
  have n: "0 < n" using True by (simp add: n_def)
  have e: "exponent x = bitlen n - 1" using True by (simp add: exponent_def n_def Let_def)
  have b1: "1 \<le> bitlen n" using n by (auto simp: bitlen_alt_def)
  from bitlen_bounds [OF n] have lo: "2 ^ nat (bitlen n - 1) \<le> n" and hi: "n < 2 ^ nat (bitlen n)"
    by auto
  have "(2::real) ^ nat (bitlen n - 1) \<le> of_int n"
    using lo by (metis of_int_le_iff of_int_numeral of_int_power)
  also have "\<dots> \<le> \<bar>x\<bar>" by (simp add: n_def)
  finally have l: "(2::real) ^ nat (bitlen n - 1) \<le> \<bar>x\<bar>" .
  have "n + 1 \<le> 2 ^ nat (bitlen n)" using hi by simp
  then have "of_int (n + 1) \<le> (2::real) ^ nat (bitlen n)"
    by (metis of_int_le_iff of_int_numeral of_int_power)
  moreover have "\<bar>x\<bar> < of_int (n + 1)" unfolding n_def by linarith
  ultimately have h: "\<bar>x\<bar> < (2::real) ^ nat (bitlen n)" by linarith
  show ?thesis using l h b1 by (simp add: e power_int_def)
next
  case False
  define a where "a = \<bar>x\<bar>"
  have a: "0 < a" "a < 1" using assms False by (simp_all add: a_def)
  define m where "m = \<lfloor>1 / a\<rfloor>"
  define k where "k = bitlen m - 1"
  have y: "1 < 1 / a" using a by simp
  have m: "0 < m" using y by (simp add: m_def)
  have b1: "1 \<le> bitlen m" using m by (auto simp: bitlen_alt_def)
  then have k0: "0 \<le> k" by (simp add: k_def)
  from bitlen_bounds [OF m] have lo: "2 ^ nat k \<le> m" and hi: "m < 2 ^ nat (k + 1)"
    by (auto simp: k_def)
  have "(2::real) ^ nat k \<le> of_int m"
    using lo by (metis of_int_le_iff of_int_numeral of_int_power)
  also have "\<dots> \<le> 1 / a" by (simp add: m_def)
  finally have l: "(2::real) ^ nat k \<le> 1 / a" .
  have "m + 1 \<le> 2 ^ nat (k + 1)" using hi by simp
  then have "of_int (m + 1) \<le> (2::real) ^ nat (k + 1)"
    by (metis of_int_le_iff of_int_numeral of_int_power)
  moreover have "1 / a < of_int (m + 1)" unfolding m_def by linarith
  ultimately have h: "1 / a < (2::real) ^ nat (k + 1)" by linarith
  have up: "a * 2 ^ nat k \<le> 1"
    using l a by (simp add: field_simps)
  have dn: "1 < a * 2 ^ nat (k + 1)"
    using h a by (simp add: field_simps)
  have ex: "exponent x = (if a * 2 ^ nat k = 1 then - k else - k - 1)"
    using False by (simp add: exponent_def Let_def a_def m_def k_def)
  have p1: "(2::real) powi (- k) = 1 / 2 ^ nat k"
    using k0 by (simp add: power_int_def field_simps)
  have p2: "(2::real) powi (- k - 1) = 1 / 2 ^ nat (k + 1)"
    using k0 by (simp add: power_int_def field_simps nat_add_distrib)
  have p3: "(2::real) powi (1 - k) = 2 / 2 ^ nat k"
  proof -
    have "(2::real) powi (1 - k) = 2 powi 1 * 2 powi (- k)"
      using power_int_add [of "2::real" 1 "- k"] by simp
    then show ?thesis by (simp add: p1)
  qed
  have s: "(2::real) ^ nat (k + 1) = 2 * 2 ^ nat k"
    using k0 by (simp add: nat_add_distrib)
  show ?thesis
  proof (cases "a * 2 ^ nat k = 1")
    case True
    then have "exponent x = - k" by (simp add: ex)
    moreover have "1 / 2 ^ nat k \<le> a" using True by (simp add: field_simps)
    moreover have "a < 2 / 2 ^ nat k" using True by (simp add: field_simps)
    ultimately show ?thesis by (simp add: p1 p3 a_def)
  next
    case False
    then have e: "exponent x = - k - 1" by (simp add: ex)
    have "1 / 2 ^ nat (k + 1) \<le> a" using dn by (simp add: field_simps)
    moreover have "a < 1 / 2 ^ nat k" using up False by (simp add: field_simps)
    ultimately show ?thesis using p1 p2 by (simp add: e a_def)
  qed
qed

lemma fl64_near:
  "\<bar>fl64 x - x\<bar> \<le> 2 powi (max (exponent x) (- 1022) - 53)"
proof (cases "x = 0")
  case True
  then show ?thesis by (simp add: fl64_def)
next
  case False
  define u :: real where "u = 2 powi (max (exponent x) (- 1022) - 52)"
  have u: "0 < u" by (simp add: u_def)
  have "fl64 x - x = (of_int (roundHalfEven (x / u)) - x / u) * u"
    using False u by (simp add: fl64_def Let_def u_def field_simps)
  then have "\<bar>fl64 x - x\<bar> = \<bar>of_int (roundHalfEven (x / u)) - x / u\<bar> * u"
    using u by (simp add: abs_mult)
  also have "\<dots> \<le> 1 / 2 * u"
    using roundHalfEven_near [of "x / u"] u by (simp add: mult_right_mono)
  also have "\<dots> = 2 powi (max (exponent x) (- 1022) - 53)"
    by (simp add: u_def power_int_diff)
  finally show ?thesis .
qed

lemma fl64_nonpos: "x \<le> 0 \<Longrightarrow> fl64 x \<le> 0"
proof -
  assume x: "x \<le> 0"
  have u: "(0::real) < 2 powi (max (exponent x) (- 1022) - 52)" by simp
  then have "x / 2 powi (max (exponent x) (- 1022) - 52) \<le> 0"
    using x by (simp add: divide_le_0_iff)
  then have "roundHalfEven (x / 2 powi (max (exponent x) (- 1022) - 52)) \<le> 0"
    by (rule roundHalfEven_nonpos)
  then show ?thesis
    using u by (simp add: fl64_def Let_def mult_le_0_iff)
qed

section \<open>Identifier generation: the claims\<close>

text \<open>
  C5. The code generated at a creation is the prefix of the document type (\<open>RCP-\<close> for a
  receipt, \<open>DEL-\<close> for a delivery) followed by the number of existing documents of that
  type plus one, zero-padded to width 3: the reply and the stored row carry the prefix
  followed by a numeral that reads back as the count plus one and is as long as the
  longer of 3 and the number's own digits. Three receipts created one after the other
  in a store without receipts get \<open>RCP-001\<close>, \<open>RCP-002\<close>, \<open>RCP-003\<close>.
\<close>

theorem document_code_generated:
  "replyCode (snd (createReceipt b st)) =
     Some (''RCP-'' @ padStart 3 (CHR ''0'') (decimal (length (receipts st) + 1)))
   \<and> code (last (receipts (fst (createReceipt b st)))) =
       ''RCP-'' @ padStart 3 (CHR ''0'') (decimal (length (receipts st) + 1))
   \<and> replyCode (snd (createDelivery b st)) =
       Some (''DEL-'' @ padStart 3 (CHR ''0'') (decimal (length (deliveries st) + 1)))
   \<and> code (last (deliveries (fst (createDelivery b st)))) =
       ''DEL-'' @ padStart 3 (CHR ''0'') (decimal (length (deliveries st) + 1))
   \<and> parseId (padStart 3 (CHR ''0'') (decimal n)) = Some n
   \<and> length (padStart 3 (CHR ''0'') (decimal n)) = max 3 (length (decimal n))
   \<and> (receipts st = [] \<longrightarrow>
        replyCode (snd (createReceipt b1 st)) = Some ''RCP-001''
        \<and> replyCode (snd (createReceipt b2 (fst (createReceipt b1 st)))) = Some ''RCP-002''
        \<and> replyCode (snd (createReceipt b3
             (fst (createReceipt b2 (fst (createReceipt b1 st)))))) = Some ''RCP-003'')"
proof -
  have seq: "replyCode (snd (createReceipt b1 st)) = Some ''RCP-001''
      \<and> replyCode (snd (createReceipt b2 (fst (createReceipt b1 st)))) = Some ''RCP-002''
      \<and> replyCode (snd (createReceipt b3
           (fst (createReceipt b2 (fst (createReceipt b1 st)))))) = Some ''RCP-003''"
    if "receipts st = []"
    using that by (simp add: createReceipt_code createReceipt_count padded_small)
  show ?thesis
    using seq
    by (simp only: createReceipt_code createReceipt_stored createDelivery_code
        createDelivery_stored parseId_padStart length_padStart) simp
qed

theorem document_code_generated_witness:
  "receipts emptyStore = []
   \<and> replyCode (snd (createReceipt (draftOf ''a'' []) emptyStore)) = Some ''RCP-001''
   \<and> replyCode (snd (createReceipt (draftOf ''b'' [])
        (fst (createReceipt (draftOf ''a'' []) emptyStore)))) = Some ''RCP-002''
   \<and> replyCode (snd (createReceipt (draftOf ''c'' [])
        (fst (createReceipt (draftOf ''b'' [])
          (fst (createReceipt (draftOf ''a'' []) emptyStore)))))) = Some ''RCP-003''
   \<and> replyCode (snd (createDelivery (draftOf ''d'' []) emptyStore)) = Some ''DEL-001''
   \<and> parseId (padStart 3 (CHR ''0'') (decimal 1000)) = Some 1000"
proof -
  have e: "receipts emptyStore = []" by (simp add: emptyStore_def)
  have d: "deliveries emptyStore = []" by (simp add: emptyStore_def)
  note t = document_code_generated [of "draftOf ''d'' []" emptyStore 1000
      "draftOf ''a'' []" "draftOf ''b'' []" "draftOf ''c'' []"]
  show ?thesis using t e d by (simp add: padded_small)
qed

section \<open>Facts about the receipt routes\<close>

lemma serve_validate:
  "serve POST [r, i, ''validate''] b st =
     (if r = ''receipts'' then withId i validateReceipt st else (st, Unrouted))"
  by (simp add: serve_def)

lemma parseId_one: "parseId ''1'' = Some 1"
  by (simp add: parseId_def isDigit_def digitVal_def)

lemma quantityFor_linesOf: "quantityFor pid (linesOf rid rows) = receivedFor rid pid rows"
  by (induction rows) (simp_all add: quantityFor_def linesOf_def)

lemma find_map_same_id:
  assumes "\<And>r. d_id (g r) = d_id r"
  shows "find (\<lambda>r. d_id r = rid) (map (\<lambda>r. if d_id r = rid then g r else r) rs) =
         map_option g (find (\<lambda>r. d_id r = rid) rs)"
  by (induction rs) (simp_all add: assms)

lemma fold_addStock:
  "fold (\<lambda>i. addStock (quantity i) (productId i)) its ps =
     map (\<lambda>p. p\<lparr>stock := stock p + quantityFor (p_id p) its\<rparr>) ps"
proof (induction its arbitrary: ps)
  case Nil
  show ?case by (simp add: map_idI quantityFor_def)
next
  case (Cons i its)
  have "fold (\<lambda>i. addStock (quantity i) (productId i)) (i # its) ps =
      map (\<lambda>p. p\<lparr>stock := stock p + quantityFor (p_id p) its\<rparr>)
        (addStock (quantity i) (productId i) ps)"
    by (simp add: Cons.IH)
  also have "\<dots> = map (\<lambda>p. p\<lparr>stock := stock p + quantityFor (p_id p) (i # its)\<rparr>) ps"
    by (auto simp: addStock_def quantityFor_def add.assoc)
  finally show ?case .
qed

lemma validateReceipt_ok:
  assumes "find (\<lambda>r. d_id r = rid) (receipts st) = Some r" "status r \<noteq> Some ''done''"
  shows "validateReceipt rid st =
     (st\<lparr>products :=
           map (\<lambda>p. p\<lparr>stock := stock p + quantityFor (p_id p) (linesOf rid (receipt_items st))\<rparr>)
             (products st),
         receipts :=
           map (\<lambda>r. if d_id r = rid then r\<lparr>status := Some ''done''\<rparr> else r) (receipts st)\<rparr>,
      Validated)"
  using assms by (simp add: validateReceipt_def fold_addStock)


lemma validateReceipt_done:
  "find (\<lambda>r. d_id r = rid) (receipts st) = Some r \<Longrightarrow> status r = Some ''done'' \<Longrightarrow>
   validateReceipt rid st = (st, AlreadyValidated)"
  by (simp add: validateReceipt_def)


lemma find_after_validate:
  assumes "find (\<lambda>r. d_id r = rid) (receipts st) = Some r" "status r \<noteq> Some ''done''"
  shows "find (\<lambda>r. d_id r = rid) (receipts (fst (validateReceipt rid st))) =
         Some (r\<lparr>status := Some ''done''\<rparr>)"
  using assms by (simp add: validateReceipt_ok find_map_same_id)

lemma validateReceipt_items: "receipt_items (fst (validateReceipt rid st)) = receipt_items st"
  by (simp add: validateReceipt_def split: option.splits)

lemma validateReceipt_replies:
  "snd (validateReceipt rid st) = Validated \<or> snd (validateReceipt rid st) = NotFound
   \<or> snd (validateReceipt rid st) = AlreadyValidated"
  by (simp add: validateReceipt_def split: option.splits)

lemma shelf_receipt:
  "find (\<lambda>r. d_id r = 1) (receipts shelf) =
     Some \<lparr>d_id = 1, code = ''RCP-001'', party = ''acme'', date = ''2025-01-01'',
           status = Some ''draft''\<rparr>"
  by (simp add: shelf_def)

lemma receipt_validation_again:
  "validateReceipt 1 (fst (validateReceipt 1 shelf)) =
     (fst (validateReceipt 1 shelf), AlreadyValidated)"
proof -
  have nd: "status \<lparr>d_id = 1, code = ''RCP-001'', party = ''acme'', date = ''2025-01-01'',
      status = Some ''draft''\<rparr> \<noteq> Some ''done''"
    by simp
  have "find (\<lambda>r. d_id r = 1) (receipts (fst (validateReceipt 1 shelf))) =
      Some (\<lparr>d_id = 1, code = ''RCP-001'', party = ''acme'', date = ''2025-01-01'',
        status = Some ''draft''\<rparr>\<lparr>status := Some ''done''\<rparr>)"
    using shelf_receipt nd by (rule find_after_validate)
  then show ?thesis by (rule validateReceipt_done) simp
qed

lemma depot_receipt:
  "find (\<lambda>r. d_id r = 1) (receipts depot) =
     Some \<lparr>d_id = 1, code = ''RCP-001'', party = ''acme'', date = ''2025-01-01'',
           status = Some ''draft''\<rparr>"
  by (simp add: depot_def)



section \<open>Validation: the claims\<close>




text \<open>
  C4. The validation of a receipt whose status is not \<open>done\<close> is accepted. It adds to
  the stock of every product the sum of the quantities of the item rows of that
  receipt for that product (so repeated lines of a product add up, and the rows of
  other receipts add nothing), sets the status of that receipt to \<open>done\<close>, and changes
  nothing else in the store.
\<close>

theorem receipt_validation_adds_quantities:
  assumes "find (\<lambda>r. d_id r = rid) (receipts st) = Some r"
    and "status r \<noteq> Some ''done''"
  shows "validateReceipt rid st =
     (st\<lparr>products :=
           map (\<lambda>p. p\<lparr>stock := stock p + receivedFor rid (p_id p) (receipt_items st)\<rparr>)
             (products st),
         receipts :=
           map (\<lambda>x. if d_id x = rid then x\<lparr>status := Some ''done''\<rparr> else x) (receipts st)\<rparr>,
      Validated)
   \<and> find (\<lambda>r. d_id r = rid) (receipts (fst (validateReceipt rid st))) =
       Some (r\<lparr>status := Some ''done''\<rparr>)"
proof -
  have "find (\<lambda>r. d_id r = rid) (receipts (fst (validateReceipt rid st))) =
      Some (r\<lparr>status := Some ''done''\<rparr>)"
    using assms by (rule find_after_validate)
  then show ?thesis
    using assms by (simp add: validateReceipt_ok quantityFor_linesOf)
qed

theorem receipt_validation_adds_quantities_witness:
  "find (\<lambda>r. d_id r = 1) (receipts depot) =
     Some \<lparr>d_id = 1, code = ''RCP-001'', party = ''acme'', date = ''2025-01-01'',
           status = Some ''draft''\<rparr>
   \<and> snd (validateReceipt 1 depot) = Validated
   \<and> map stock (products (fst (validateReceipt 1 depot))) = [10 + (4 + 3), 0 + 5]
   \<and> map status (receipts (fst (validateReceipt 1 depot))) = [Some ''done'', Some ''draft'']
   \<and> receipt_items (fst (validateReceipt 1 depot)) = receipt_items depot"
proof -
  have nd: "status \<lparr>d_id = 1, code = ''RCP-001'', party = ''acme'', date = ''2025-01-01'',
      status = Some ''draft''\<rparr> \<noteq> Some ''done''"
    by simp
  note t = receipt_validation_adds_quantities [OF depot_receipt nd, THEN conjunct1]
  have ok: "snd (validateReceipt 1 depot) = Validated"
    by (simp only: t snd_conv)
  have stocks: "map stock (products (fst (validateReceipt 1 depot))) = [10 + (4 + 3), 0 + 5]"
    by (simp only: t fst_conv) (simp add: depot_def)
  have st: "map status (receipts (fst (validateReceipt 1 depot))) =
      [Some ''done'', Some ''draft'']"
    by (simp only: t fst_conv) (simp add: depot_def)
  have rows: "receipt_items (fst (validateReceipt 1 depot)) = receipt_items depot"
    by (simp only: t fst_conv) simp
  show ?thesis
    using depot_receipt ok stocks st rows by (simp only: simp_thms)
qed

section \<open>Facts about the router and the stock invariant\<close>

lemma serve_deliveries_products:
  "products (fst (serve v (''deliveries'' # rest) b st)) = products st"
  by (auto simp: serve_def withId_def listDeliveries_def createDelivery_def updateDelivery_def
      deleteDelivery_def Let_def split: list.splits verb.splits option.splits)

lemma delivery_handlers_products:
  "products (fst (listDeliveries st)) = products st"
  "products (fst (createDelivery b st)) = products st"
  "products (fst (updateDelivery did b st)) = products st"
  "products (fst (deleteDelivery did st)) = products st"
  by (simp_all add: listDeliveries_def createDelivery_def updateDelivery_def deleteDelivery_def
      Let_def split: option.splits)

lemma addStock_nonneg:
  "0 \<le> q \<Longrightarrow> list_all (\<lambda>p. 0 \<le> stock p) ps \<Longrightarrow>
   list_all (\<lambda>p. 0 \<le> stock p) (addStock q pid ps)"
  by (induction ps) (simp_all add: addStock_def)

lemma fold_addStock_nonneg:
  "list_all (\<lambda>i. 0 \<le> quantity i) its \<Longrightarrow> list_all (\<lambda>p. 0 \<le> stock p) ps \<Longrightarrow>
   list_all (\<lambda>p. 0 \<le> stock p) (fold (\<lambda>i. addStock (quantity i) (productId i)) its ps)"
  by (induction its arbitrary: ps) (simp_all add: addStock_nonneg)

lemma linesOf_nonneg:
  "list_all (\<lambda>row. 0 \<le> quantity (snd row)) rows \<Longrightarrow>
   list_all (\<lambda>i. 0 \<le> quantity i) (linesOf did rows)"
  by (induction rows) (simp_all add: linesOf_def)

lemma validateReceipt_nonneg:
  "stocksNonneg st \<Longrightarrow> quantitiesNonneg st \<Longrightarrow> stocksNonneg (fst (validateReceipt rid st))"
  by (simp add: validateReceipt_def stocksNonneg_def quantitiesNonneg_def
      fold_addStock_nonneg linesOf_nonneg split: option.splits)

lemma requestValidation_inv:
  assumes "stocksNonneg st" "quantitiesNonneg st"
  shows "stocksNonneg (requestValidation rq st) \<and> quantitiesNonneg (requestValidation rq st)"
proof (cases "fst rq = ''receipts''")
  case True
  show ?thesis
  proof (cases "parseId (snd rq)")
    case None
    with True assms show ?thesis
      by (simp add: requestValidation_def serve_validate withId_def)
  next
    case (Some n)
    with True assms show ?thesis
      by (simp add: requestValidation_def serve_validate withId_def validateReceipt_nonneg
          quantitiesNonneg_def validateReceipt_items)
  qed
next
  case False
  with assms show ?thesis by (simp add: requestValidation_def serve_validate)
qed

lemma fold_validateReceipt_inv:
  "stocksNonneg st \<Longrightarrow> quantitiesNonneg st \<Longrightarrow>
   stocksNonneg (fold (\<lambda>rid s. fst (validateReceipt rid s)) rids st)
   \<and> quantitiesNonneg (fold (\<lambda>rid s. fst (validateReceipt rid s)) rids st)"
  by (induction rids arbitrary: st)
    (simp_all add: validateReceipt_nonneg quantitiesNonneg_def validateReceipt_items)

lemma fold_requestValidation_inv:
  "stocksNonneg st \<Longrightarrow> quantitiesNonneg st \<Longrightarrow>
   stocksNonneg (fold requestValidation rqs st) \<and> quantitiesNonneg (fold requestValidation rqs st)"
  by (induction rqs arbitrary: st) (simp_all add: requestValidation_inv)

section \<open>Deliveries and the stock invariant: the claims\<close>

text \<open>
  C1, as the claim states it, fails: the spec's scenario has a product with stock 10
  and a draft delivery with the line (P, 4); the request to validate that delivery
  matches no route, so the stock stays 10 (not 6) and the status stays \<open>draft\<close>
  (not \<open>done\<close>).
\<close>

theorem delivery_validation_counterexample:
  "map stock (products scenario) = [10]
   \<and> map d_id (deliveries scenario) = [1]
   \<and> linesOf 1 (delivery_items scenario) = [\<lparr>productId = 1, quantity = 4\<rparr>]
   \<and> snd (serve POST [''deliveries'', ''1'', ''validate''] noBody scenario) = Unrouted
   \<and> map stock (products (fst (serve POST [''deliveries'', ''1'', ''validate''] noBody scenario)))
       = [10]
   \<and> map status (deliveries (fst (serve POST [''deliveries'', ''1'', ''validate''] noBody scenario)))
       = [Some ''draft'']"
  by (simp add: serve_validate)
    (simp add: scenario_def serve_def createDelivery_def Let_def draftOf_def emptyStore_def
      itemsOr_def statusOr_def linesOf_def)

text \<open>
  C1, amended. The router has no validation route for deliveries: a request
  \<^verbatim>\<open>POST /deliveries/:id/validate\<close> matches none of the document routes and leaves the
  store as it is. Every request under \<^verbatim>\<open>/deliveries\<close>, and so each of the four delivery
  routes (list, create, update, delete), leaves every product's stock unchanged.
\<close>

theorem delivery_routes_keep_stock:
  "serve POST [''deliveries'', i, ''validate''] b st = (st, Unrouted)
   \<and> products (fst (serve v (''deliveries'' # rest) b st)) = products st
   \<and> products (fst (listDeliveries st)) = products st
   \<and> products (fst (createDelivery b st)) = products st
   \<and> products (fst (updateDelivery did b st)) = products st
   \<and> products (fst (deleteDelivery did st)) = products st"
  by (simp add: serve_validate serve_deliveries_products delivery_handlers_products)

theorem delivery_routes_keep_stock_witness:
  "serve POST [''deliveries'', ''1'', ''validate''] noBody shelf = (shelf, Unrouted)
   \<and> map stock (products (fst (serve PUT [''deliveries'', ''1'']
        \<lparr>b_party = ''bob'', b_date = ''2025-01-02'', b_status = Some ''done'',
         b_items = Some [\<lparr>productId = 1, quantity = 5\<rparr>]\<rparr> shelf))) = [10, 0]
   \<and> map status (deliveries (fst (serve PUT [''deliveries'', ''1'']
        \<lparr>b_party = ''bob'', b_date = ''2025-01-02'', b_status = Some ''done'',
         b_items = Some [\<lparr>productId = 1, quantity = 5\<rparr>]\<rparr> shelf))) = [Some ''done'']"
proof -
  let ?b = "\<lparr>b_party = ''bob'', b_date = ''2025-01-02'', b_status = Some ''done'',
      b_items = Some [\<lparr>productId = 1, quantity = 5\<rparr>]\<rparr>"
  note t = delivery_routes_keep_stock [of "''1''" noBody shelf]
  note u = delivery_routes_keep_stock [of "''1''" ?b shelf PUT "[''1'']"]
  have p: "map stock (products shelf) = [10, 0]" by (simp add: shelf_def)
  have s: "map status (deliveries (fst (serve PUT [''deliveries'', ''1''] ?b shelf))) =
      [Some ''done'']"
    by (simp add: serve_def withId_def parseId_one updateDelivery_def Let_def shelf_def)
  show ?thesis using t u p s by simp
qed

text \<open>
  C2, as the claim states it, fails: in \<open>shortfall\<close> every stock and every line
  quantity is positive, the product has stock 6 and the delivery 1 has the line
  (P, 20), so its validation would make the stock negative; the request to validate it
  leaves the stocks unchanged, but answers \<open>Unrouted\<close>: no validation of the backend
  answers that the stock is insufficient.
\<close>

theorem insufficient_stock_counterexample:
  "stocksNonneg shortfall \<and> quantitiesNonneg shortfall
   \<and> map stock (products shortfall) = [6]
   \<and> map d_id (deliveries shortfall) = [1]
   \<and> linesOf 1 (delivery_items shortfall) = [\<lparr>productId = 1, quantity = 20\<rparr>]
   \<and> (6::real) - 20 < 0
   \<and> serve POST [''deliveries'', ''1'', ''validate''] noBody shortfall = (shortfall, Unrouted)"
  by (simp add: serve_validate)
    (simp add: shortfall_def serve_def createDelivery_def Let_def draftOf_def emptyStore_def
      itemsOr_def statusOr_def stocksNonneg_def quantitiesNonneg_def linesOf_def)

text \<open>
  C2, amended. Starting from a store whose stocks and whose receipt line quantities
  are all at least zero, every product's stock is at least zero after every sequence
  of validation requests, for receipts or for deliveries, and so after each request of
  the sequence; the same holds for every sequence of receipt validations by id. No
  validation checks a stock or answers that it is insufficient: a receipt validation
  answers \<open>Validated\<close>, \<open>NotFound\<close> or \<open>AlreadyValidated\<close>, and a validation request for a
  delivery changes no product.
\<close>

theorem validations_keep_stock_nonneg:
  assumes "stocksNonneg st" and "quantitiesNonneg st"
  shows "stocksNonneg (fold requestValidation rqs st)
   \<and> (\<forall>k. stocksNonneg (fold requestValidation (take k rqs) st))
   \<and> (snd (validateReceipt rid st) = Validated \<or> snd (validateReceipt rid st) = NotFound
        \<or> snd (validateReceipt rid st) = AlreadyValidated)
   \<and> products (requestValidation (''deliveries'', i) st) = products st
   \<and> stocksNonneg (fold (\<lambda>rid s. fst (validateReceipt rid s)) rids st)"
  using assms
  by (simp add: fold_requestValidation_inv fold_validateReceipt_inv validateReceipt_replies
      requestValidation_def serve_validate)

theorem validations_keep_stock_nonneg_witness:
  "stocksNonneg shelf \<and> quantitiesNonneg shelf
   \<and> stocksNonneg (fold requestValidation
        [(''receipts'', ''1''), (''deliveries'', ''1''), (''receipts'', ''1'')] shelf)
   \<and> map stock (products (fold requestValidation
        [(''receipts'', ''1''), (''deliveries'', ''1''), (''receipts'', ''1'')] shelf)) = [17, 5]"
proof -
  have a: "stocksNonneg shelf" by (simp add: stocksNonneg_def shelf_def)
  have b: "quantitiesNonneg shelf" by (simp add: quantitiesNonneg_def shelf_def)
  note t = validations_keep_stock_nonneg [OF a b,
      of "[(''receipts'', ''1''), (''deliveries'', ''1''), (''receipts'', ''1'')]" 1 "''1''"]
  have first: "requestValidation (''receipts'', ''1'') shelf = fst (validateReceipt 1 shelf)"
    by (simp add: requestValidation_def serve_validate withId_def parseId_one)
  have again: "requestValidation (''receipts'', ''1'') (fst (validateReceipt 1 shelf)) =
      fst (validateReceipt 1 shelf)"
    using receipt_validation_again
    by (simp add: requestValidation_def serve_validate withId_def parseId_one)
  have skip: "requestValidation (''deliveries'', ''1'') s = s" for s
    by (simp add: requestValidation_def serve_validate)
  have stocks: "map stock (products (fst (validateReceipt 1 shelf))) = [17, 5]"
    by (simp add: validateReceipt_def shelf_def linesOf_def addStock_def)
  have run: "fold requestValidation
      [(''receipts'', ''1''), (''deliveries'', ''1''), (''receipts'', ''1'')] shelf =
      fst (validateReceipt 1 shelf)"
    by (simp only: fold_simps comp_apply id_apply first skip again)
  show ?thesis
    using a b t [THEN conjunct1] stocks by (simp only: run simp_thms)
qed

section \<open>Facts about update and delete\<close>

lemma linesOf_replaced:
  "linesOf did (filter (\<lambda>row. fst row \<noteq> did) rows @ map (Pair did) its) = its"
proof -
  have "filter (\<lambda>row. fst row = did) (filter (\<lambda>row. fst row \<noteq> did) rows) = []"
    by (induction rows) simp_all
  moreover have "map snd (filter (\<lambda>row. fst row = did) (map (Pair did) its)) = its"
    by (induction its) simp_all
  ultimately show ?thesis by (simp add: linesOf_def)
qed

lemma linesOf_removed: "linesOf did (cascade did rows) = []"
  by (induction rows) (simp_all add: linesOf_def cascade_def)

lemma find_removed: "find (\<lambda>r. d_id r = rid) (filter (\<lambda>r. d_id r \<noteq> rid) rs) = None"
  by (induction rs) simp_all

lemma updateReceipt_ok:
  assumes "find (\<lambda>r. d_id r = rid) (receipts st) = Some r"
  shows "updateReceipt rid b st =
     (st\<lparr>receipts :=
           map (\<lambda>r. if d_id r = rid
                     then r\<lparr>party := b_party b, date := b_date b, status := b_status b\<rparr>
                     else r) (receipts st),
         receipt_items :=
           filter (\<lambda>row. fst row \<noteq> rid) (receipt_items st) @ map (Pair rid) (itemsOr (b_items b))\<rparr>,
      Saved \<lparr>s_doc = r\<lparr>party := b_party b, date := b_date b, status := b_status b\<rparr>,
             s_items = itemsOr (b_items b),
             totalItems = runningTotal (itemsOr (b_items b))\<rparr>)"
  using assms by (simp add: updateReceipt_def Let_def)

lemma updateDelivery_ok:
  assumes "find (\<lambda>d. d_id d = did) (deliveries st) = Some d"
  shows "updateDelivery did b st =
     (st\<lparr>deliveries :=
           map (\<lambda>d. if d_id d = did
                     then d\<lparr>party := b_party b, date := b_date b, status := b_status b\<rparr>
                     else d) (deliveries st),
         delivery_items :=
           filter (\<lambda>row. fst row \<noteq> did) (delivery_items st) @ map (Pair did) (itemsOr (b_items b))\<rparr>,
      Saved \<lparr>s_doc = d\<lparr>party := b_party b, date := b_date b, status := b_status b\<rparr>,
             s_items = itemsOr (b_items b),
             totalItems = runningTotal (itemsOr (b_items b))\<rparr>)"
  using assms by (simp add: updateDelivery_def Let_def)

lemma updateReceipt_products: "products (fst (updateReceipt rid b st)) = products st"
  by (simp add: updateReceipt_def Let_def split: option.splits)

lemma deleteReceipt_products: "products (fst (deleteReceipt rid st)) = products st"
  by (simp add: deleteReceipt_def split: option.splits)

lemma find_after_updateReceipt:
  assumes "find (\<lambda>r. d_id r = rid) (receipts st) = Some r"
  shows "find (\<lambda>r. d_id r = rid) (receipts (fst (updateReceipt rid b st))) =
         Some (r\<lparr>party := b_party b, date := b_date b, status := b_status b\<rparr>)"
  using assms by (simp add: updateReceipt_ok find_map_same_id)

lemma find_after_updateDelivery:
  assumes "find (\<lambda>d. d_id d = did) (deliveries st) = Some d"
  shows "find (\<lambda>d. d_id d = did) (deliveries (fst (updateDelivery did b st))) =
         Some (d\<lparr>party := b_party b, date := b_date b, status := b_status b\<rparr>)"
  using assms by (simp add: updateDelivery_ok find_map_same_id)

lemma lines_after_updateReceipt:
  assumes "find (\<lambda>r. d_id r = rid) (receipts st) = Some r"
  shows "linesOf rid (receipt_items (fst (updateReceipt rid b st))) = itemsOr (b_items b)"
  using assms by (simp add: updateReceipt_ok linesOf_replaced)


lemma shelf_delivery:
  "find (\<lambda>d. d_id d = 1) (deliveries shelf) =
     Some \<lparr>d_id = 1, code = ''DEL-001'', party = ''bob'', date = ''2025-01-02'',
           status = Some ''draft''\<rparr>"
  by (simp add: shelf_def)

lemma shelf_validated_stocks: "map stock (products (fst (validateReceipt 1 shelf))) = [17, 5]"
  by (simp add: validateReceipt_def shelf_def linesOf_def addStock_def)

lemma shelf_validated_receipt:
  "find (\<lambda>r. d_id r = 1) (receipts (fst (validateReceipt 1 shelf))) =
     Some \<lparr>d_id = 1, code = ''RCP-001'', party = ''acme'', date = ''2025-01-01'',
           status = Some ''done''\<rparr>"
  by (simp add: validateReceipt_def shelf_def)

section \<open>Update and delete: the claims\<close>



text \<open>
  C9. A deletion changes no product's stock, whatever the status of the document; in
  particular the deletion of a validated receipt leaves the stock the validation
  produced. The deletion of an existing document answers \<open>Deleted\<close>, and afterwards no
  document has the id and the document has no lines.
\<close>

theorem delete_keeps_stock:
  "products (fst (deleteReceipt rid st)) = products st
   \<and> products (fst (deleteDelivery did st)) = products st
   \<and> products (fst (deleteReceipt rid (fst (validateReceipt rid st)))) =
       products (fst (validateReceipt rid st))
   \<and> (find (\<lambda>r. d_id r = rid) (receipts st) = Some r \<longrightarrow>
        snd (deleteReceipt rid st) = Deleted
        \<and> find (\<lambda>r. d_id r = rid) (receipts (fst (deleteReceipt rid st))) = None
        \<and> linesOf rid (receipt_items (fst (deleteReceipt rid st))) = [])
   \<and> (find (\<lambda>d. d_id d = did) (deliveries st) = Some d \<longrightarrow>
        snd (deleteDelivery did st) = Deleted
        \<and> find (\<lambda>d. d_id d = did) (deliveries (fst (deleteDelivery did st))) = None
        \<and> linesOf did (delivery_items (fst (deleteDelivery did st))) = [])"
  by (simp add: deleteReceipt_products delivery_handlers_products)
    (simp add: deleteReceipt_def deleteDelivery_def find_removed linesOf_removed)

theorem delete_keeps_stock_witness:
  "find (\<lambda>r. d_id r = 1) (receipts (fst (validateReceipt 1 shelf))) =
     Some \<lparr>d_id = 1, code = ''RCP-001'', party = ''acme'', date = ''2025-01-01'',
           status = Some ''done''\<rparr>
   \<and> snd (deleteReceipt 1 (fst (validateReceipt 1 shelf))) = Deleted
   \<and> map stock (products (fst (deleteReceipt 1 (fst (validateReceipt 1 shelf))))) = [17, 5]
   \<and> find (\<lambda>r. d_id r = 1) (receipts (fst (deleteReceipt 1 (fst (validateReceipt 1 shelf)))))
       = None
   \<and> linesOf 1 (receipt_items (fst (deleteReceipt 1 (fst (validateReceipt 1 shelf))))) = []
   \<and> snd (deleteDelivery 1 shelf) = Deleted
   \<and> map stock (products (fst (deleteDelivery 1 shelf))) = [10, 0]"
proof -
  let ?r = "\<lparr>d_id = 1, code = ''RCP-001'', party = ''acme'', date = ''2025-01-01'',
      status = Some ''done''\<rparr>"
  let ?d = "\<lparr>d_id = 1, code = ''DEL-001'', party = ''bob'', date = ''2025-01-02'',
      status = Some ''draft''\<rparr>"
  note t = delete_keeps_stock [of 1 "fst (validateReceipt 1 shelf)" 1 ?r ?d]
  note u = delete_keeps_stock [of 1 shelf 1 ?r ?d]
  have p: "map stock (products shelf) = [10, 0]" by (simp add: shelf_def)
  show ?thesis
    using t u shelf_validated_receipt shelf_delivery shelf_validated_stocks p by simp
qed

section \<open>Update after validation: the claim\<close>

lemma validate_after_update:
  assumes "find (\<lambda>r. d_id r = rid) (receipts st) = Some r"
    and "b_status b \<noteq> Some ''done''"
  shows "snd (validateReceipt rid (fst (updateReceipt rid b st))) = Validated
   \<and> products (fst (validateReceipt rid (fst (updateReceipt rid b st)))) =
       map (\<lambda>p. p\<lparr>stock := stock p + quantityFor (p_id p) (itemsOr (b_items b))\<rparr>)
         (products st)"
proof -
  let ?st = "fst (updateReceipt rid b st)"
  let ?r = "r\<lparr>party := b_party b, date := b_date b, status := b_status b\<rparr>"
  have f: "find (\<lambda>r. d_id r = rid) (receipts ?st) = Some ?r"
    using assms(1) by (rule find_after_updateReceipt)
  have n: "status ?r \<noteq> Some ''done''"
    using assms(2) by simp
  have l: "linesOf rid (receipt_items ?st) = itemsOr (b_items b)"
    using assms(1) by (rule lines_after_updateReceipt)
  show ?thesis
    by (simp add: validateReceipt_ok [OF f n] l updateReceipt_products)
qed

text \<open>
  C10. The update of an existing document is accepted whatever its status, \<open>done\<close>
  included, and stores the status of the request. So a receipt that was validated can
  be updated to a status other than \<open>done\<close>, and a validation is then accepted again:
  it adds the quantities of the receipt's lines to the stocks once more.
\<close>

theorem update_reopens_validation:
  "(find (\<lambda>r. d_id r = rid) (receipts st) = Some r \<longrightarrow>
      snd (updateReceipt rid b st) =
        Saved \<lparr>s_doc = r\<lparr>party := b_party b, date := b_date b, status := b_status b\<rparr>,
               s_items = itemsOr (b_items b),
               totalItems = runningTotal (itemsOr (b_items b))\<rparr>
      \<and> find (\<lambda>r. d_id r = rid) (receipts (fst (updateReceipt rid b st))) =
          Some (r\<lparr>party := b_party b, date := b_date b, status := b_status b\<rparr>)
      \<and> (b_status b \<noteq> Some ''done'' \<longrightarrow>
           snd (validateReceipt rid (fst (updateReceipt rid b st))) = Validated
           \<and> products (fst (validateReceipt rid (fst (updateReceipt rid b st)))) =
               map (\<lambda>p. p\<lparr>stock := stock p + quantityFor (p_id p) (itemsOr (b_items b))\<rparr>)
                 (products st)))
   \<and> (find (\<lambda>d. d_id d = did) (deliveries st) = Some d \<longrightarrow>
      snd (updateDelivery did b st) =
        Saved \<lparr>s_doc = d\<lparr>party := b_party b, date := b_date b, status := b_status b\<rparr>,
               s_items = itemsOr (b_items b),
               totalItems = runningTotal (itemsOr (b_items b))\<rparr>
      \<and> find (\<lambda>d. d_id d = did) (deliveries (fst (updateDelivery did b st))) =
          Some (d\<lparr>party := b_party b, date := b_date b, status := b_status b\<rparr>))"
proof -
  have r: "snd (updateReceipt rid b st) =
        Saved \<lparr>s_doc = r\<lparr>party := b_party b, date := b_date b, status := b_status b\<rparr>,
               s_items = itemsOr (b_items b),
               totalItems = runningTotal (itemsOr (b_items b))\<rparr>
      \<and> find (\<lambda>r. d_id r = rid) (receipts (fst (updateReceipt rid b st))) =
          Some (r\<lparr>party := b_party b, date := b_date b, status := b_status b\<rparr>)"
    if "find (\<lambda>r. d_id r = rid) (receipts st) = Some r"
    using that by (simp add: find_after_updateReceipt) (simp add: updateReceipt_ok)
  have d: "snd (updateDelivery did b st) =
        Saved \<lparr>s_doc = d\<lparr>party := b_party b, date := b_date b, status := b_status b\<rparr>,
               s_items = itemsOr (b_items b),
               totalItems = runningTotal (itemsOr (b_items b))\<rparr>
      \<and> find (\<lambda>d. d_id d = did) (deliveries (fst (updateDelivery did b st))) =
          Some (d\<lparr>party := b_party b, date := b_date b, status := b_status b\<rparr>)"
    if "find (\<lambda>d. d_id d = did) (deliveries st) = Some d"
    using that by (simp add: find_after_updateDelivery) (simp add: updateDelivery_ok)
  show ?thesis
    using r d validate_after_update [of rid st r b] by blast
qed

theorem update_reopens_validation_witness:
  "find (\<lambda>r. d_id r = 1) (receipts (fst (validateReceipt 1 shelf))) =
     Some \<lparr>d_id = 1, code = ''RCP-001'', party = ''acme'', date = ''2025-01-01'',
           status = Some ''done''\<rparr>
   \<and> map stock (products (fst (validateReceipt 1 shelf))) = [17, 5]
   \<and> find (\<lambda>r. d_id r = 1) (receipts (fst (updateReceipt 1
        (draftOf ''acme'' (linesOf 1 (receipt_items shelf))) (fst (validateReceipt 1 shelf))))) =
       Some \<lparr>d_id = 1, code = ''RCP-001'', party = ''acme'', date = ''2025-01-01'',
             status = None\<rparr>
   \<and> snd (validateReceipt 1 (fst (updateReceipt 1
        (draftOf ''acme'' (linesOf 1 (receipt_items shelf))) (fst (validateReceipt 1 shelf)))))
       = Validated
   \<and> map stock (products (fst (validateReceipt 1 (fst (updateReceipt 1
        (draftOf ''acme'' (linesOf 1 (receipt_items shelf))) (fst (validateReceipt 1 shelf)))))))
       = [24, 10]"
proof -
  let ?r = "\<lparr>d_id = 1, code = ''RCP-001'', party = ''acme'', date = ''2025-01-01'',
      status = Some ''done''\<rparr>"
  let ?d = "\<lparr>d_id = 1, code = ''DEL-001'', party = ''bob'', date = ''2025-01-02'',
      status = Some ''draft''\<rparr>"
  let ?b = "draftOf ''acme'' (linesOf 1 (receipt_items shelf))"
  let ?st = "fst (validateReceipt 1 shelf)"
  note t = update_reopens_validation [of 1 ?st ?r ?b 1 ?d, THEN conjunct1, rule_format,
      OF shelf_validated_receipt]
  have b: "b_status ?b \<noteq> Some ''done''" by (simp add: draftOf_def)
  note again = t [THEN conjunct2, THEN conjunct2, rule_format, OF b]
  have lines: "itemsOr (b_items ?b) =
      [\<lparr>productId = 1, quantity = 4\<rparr>, \<lparr>productId = 1, quantity = 3\<rparr>,
       \<lparr>productId = 2, quantity = 5\<rparr>]"
    by (simp add: draftOf_def itemsOr_def shelf_def linesOf_def)
  have prods: "products ?st =
      [\<lparr>p_id = 1, p_name = ''bolt'', uom = ''pcs'', stock = 17\<rparr>,
       \<lparr>p_id = 2, p_name = ''nut'', uom = ''pcs'', stock = 5\<rparr>]"
    by (simp add: validateReceipt_def shelf_def linesOf_def addStock_def)
  have stocks: "map stock (products (fst (validateReceipt 1 (fst (updateReceipt 1 ?b ?st))))) =
      [24, 10]"
    by (simp only: again [THEN conjunct2] lines prods) (simp add: quantityFor_def)
  have found: "find (\<lambda>r. d_id r = 1) (receipts (fst (updateReceipt 1 ?b ?st))) =
      Some \<lparr>d_id = 1, code = ''RCP-001'', party = ''acme'', date = ''2025-01-01'',
            status = None\<rparr>"
    using t [THEN conjunct2, THEN conjunct1] by (simp add: draftOf_def)
  show ?thesis
    using shelf_validated_receipt shelf_validated_stocks found again [THEN conjunct1] stocks
    by (simp only: simp_thms)
qed

section \<open>The delivery page: the claims\<close>

lemma existingQuantity_reserved: "existingQuantity pid its = reservedFrom 0 pid its"
proof -
  have "foldl (\<lambda>s i. addD s (quantity i)) a (filter (\<lambda>i. productId i = pid) xs) =
      reservedFrom a pid xs" for a and xs :: "item list"
    by (induction xs arbitrary: a) simp_all
  then show ?thesis by (simp add: existingQuantity_def)
qed

lemma decimal_tenths:
  "parseFloat (1 / 10) = 3602879701896397 / 36028797018963968"
  "parseFloat (2 / 10) = 3602879701896397 / 18014398509481984"
  "parseFloat (3 / 10) = 5404319552844595 / 18014398509481984"
  "parseFloat (1 / 5) = 3602879701896397 / 18014398509481984"
  by (simp_all add: parseFloat_def) code_simp+

lemma tenths_sum:
  "addD (3602879701896397 / 36028797018963968) (3602879701896397 / 18014398509481984) =
     1351079888211149 / 4503599627370496"
  "subD (5404319552844595 / 18014398509481984) (3602879701896397 / 36028797018963968) =
     7205759403792793 / 36028797018963968"
  "addD 0 (3602879701896397 / 36028797018963968) = 3602879701896397 / 36028797018963968"
  by (simp_all add: addD_def subD_def) code_simp+

lemma whole_numbers:
  "parseFloat 0 = 0" "parseFloat 1 = 1" "parseFloat 3 = 3" "parseFloat 7 = 7"
  "addD 0 4 = 4" "addD 4 3 = 7" "addD 4 7 = 11" "subD 10 4 = 6"
  by (simp_all add: parseFloat_def addD_def subD_def) code_simp+

text \<open>
  C7, as the claim states it, fails: the product has the stock 0.3, the line set holds
  one line of 0.1 for it, and the quantity 0.2 is asked. 0.1 + 0.2 does not exceed
  0.3, yet the line is refused, and the available quantity reported is
  0.19999999999999998, not 0.3 - 0.1.
\<close>

theorem add_item_counterexample:
  "\<not> (3 / 10 :: real) < 1 / 10 + 2 / 10
   \<and> handleAddItem [\<lparr>p_id = 1, p_name = ''P'', uom = ''kg'', stock = parseFloat (3 / 10)\<rparr>]
        [\<lparr>productId = 1, quantity = parseFloat (1 / 10)\<rparr>]
        \<lparr>f_productId = Some 1, f_quantity = Some (2 / 10)\<rparr> =
       InsufficientStock (7205759403792793 / 36028797018963968) ''kg''
   \<and> (7205759403792793 / 36028797018963968 :: real) \<noteq> 3 / 10 - 1 / 10"
proof -
  have "handleAddItem [\<lparr>p_id = 1, p_name = ''P'', uom = ''kg'', stock = parseFloat (3 / 10)\<rparr>]
        [\<lparr>productId = 1, quantity = parseFloat (1 / 10)\<rparr>]
        \<lparr>f_productId = Some 1, f_quantity = Some (2 / 10)\<rparr> =
       InsufficientStock (7205759403792793 / 36028797018963968) ''kg''"
    by (simp add: handleAddItem_def existingQuantity_def decimal_tenths tenths_sum Let_def)
  then show ?thesis by simp
qed

text \<open>
  C7, amended. Adding a line with product p and quantity q to the line set of the
  delivery being composed is refused when no product is selected or no quantity is
  given, when q is not positive, when no product has the id, and when the sum the
  page computes exceeds p's stock: the quantities of the lines already in the set for
  p added up from 0 in the order of the set, then the parsed q added, each sum rounded
  to the nearest number. In the last case the message reports p's stock minus the
  quantity already in the set for p, that difference rounded too. Otherwise the line
  (p, parsed q) is appended to the set, whether or not p already has lines.
\<close>

theorem add_item_outcomes:
  "(f_productId form = None \<or> f_quantity form = None \<longrightarrow>
      handleAddItem prods its form = InvalidItem)
   \<and> (f_productId form = Some pid \<and> f_quantity form = Some q
        \<and> (q \<le> 0 \<or> parseFloat q \<le> 0) \<longrightarrow>
      handleAddItem prods its form = InvalidItem)
   \<and> (f_productId form = Some pid \<and> f_quantity form = Some q \<and> 0 < parseFloat q
        \<and> find (\<lambda>p. p_id p = pid) prods = None \<longrightarrow>
      handleAddItem prods its form = UnknownProduct)
   \<and> (f_productId form = Some pid \<and> f_quantity form = Some q \<and> 0 < parseFloat q
        \<and> find (\<lambda>p. p_id p = pid) prods = Some p
        \<and> stock p < addD (reservedFrom 0 pid its) (parseFloat q) \<longrightarrow>
      handleAddItem prods its form =
        InsufficientStock (subD (stock p) (reservedFrom 0 pid its)) (uom p))
   \<and> (f_productId form = Some pid \<and> f_quantity form = Some q \<and> 0 < parseFloat q
        \<and> find (\<lambda>p. p_id p = pid) prods = Some p
        \<and> addD (reservedFrom 0 pid its) (parseFloat q) \<le> stock p \<longrightarrow>
      handleAddItem prods its form =
        Added (its @ [\<lparr>productId = pid, quantity = parseFloat q\<rparr>]))"
proof -
  have neg: "parseFloat q \<le> 0" if "q \<le> 0"
    using that by (simp add: parseFloat_def fl64_nonpos)
  show ?thesis
    using neg
    by (auto simp: handleAddItem_def existingQuantity_reserved Let_def split: option.splits)
qed

theorem add_item_outcomes_witness:
  "handleAddItem (products shelf) [\<lparr>productId = 1, quantity = 4\<rparr>]
      \<lparr>f_productId = Some 1, f_quantity = Some 3\<rparr> =
     Added [\<lparr>productId = 1, quantity = 4\<rparr>, \<lparr>productId = 1, quantity = 3\<rparr>]
   \<and> handleAddItem (products shelf) [\<lparr>productId = 1, quantity = 4\<rparr>]
      \<lparr>f_productId = Some 1, f_quantity = Some 7\<rparr> = InsufficientStock 6 ''pcs''
   \<and> handleAddItem (products shelf) [\<lparr>productId = 1, quantity = 4\<rparr>]
      \<lparr>f_productId = Some 9, f_quantity = Some 1\<rparr> = UnknownProduct
   \<and> handleAddItem (products shelf) [\<lparr>productId = 1, quantity = 4\<rparr>]
      \<lparr>f_productId = Some 1, f_quantity = Some 0\<rparr> = InvalidItem
   \<and> handleAddItem (products shelf) [\<lparr>productId = 1, quantity = 4\<rparr>]
      \<lparr>f_productId = Some 1, f_quantity = None\<rparr> = InvalidItem"
proof -
  let ?its = "[\<lparr>productId = 1, quantity = 4\<rparr>]"
  let ?p = "\<lparr>p_id = 1, p_name = ''bolt'', uom = ''pcs'', stock = 10\<rparr>"
  have q: "reservedFrom 0 1 ?its = 4" by (simp add: whole_numbers)
  have f: "find (\<lambda>p. p_id p = 1) (products shelf) = Some ?p" by (simp add: shelf_def)
  have g: "find (\<lambda>p. p_id p = 9) (products shelf) = None" by (simp add: shelf_def)
  note a = add_item_outcomes
    [of "\<lparr>f_productId = Some 1, f_quantity = Some 3\<rparr>" "products shelf" ?its 1 3 ?p]
  note b = add_item_outcomes
    [of "\<lparr>f_productId = Some 1, f_quantity = Some 7\<rparr>" "products shelf" ?its 1 7 ?p]
  note c = add_item_outcomes
    [of "\<lparr>f_productId = Some 9, f_quantity = Some 1\<rparr>" "products shelf" ?its 9 1 ?p]
  note d = add_item_outcomes
    [of "\<lparr>f_productId = Some 1, f_quantity = Some 0\<rparr>" "products shelf" ?its 1 0 ?p]
  note e = add_item_outcomes
    [of "\<lparr>f_productId = Some 1, f_quantity = None\<rparr>" "products shelf" ?its 1 0 ?p]
  show ?thesis using q f g a b c d e by (simp add: whole_numbers)
qed

text \<open>
  C6. The listing's \<^verbatim>\<open>totalItems\<close>, which the "Total Items" column of the table
  prints, and the \<^verbatim>\<open>totalItems\<close> of the create and update replies are the sum of the
  line quantities: 5 for two lines of one product with the quantities 2 and 3. The
  "Total Items" line of the dialog prints the number of lines: 2 for the same line set.
\<close>

theorem total_items_figures:
  "tableTotalItems (deliverySummary
      (emptyStore\<lparr>delivery_items := [(1, \<lparr>productId = 1, quantity = 2\<rparr>),
                                    (1, \<lparr>productId = 1, quantity = 3\<rparr>)]\<rparr>)
      \<lparr>d_id = 1, code = ''DEL-001'', party = ''bob'', date = ''2025-01-02'',
       status = Some ''draft''\<rparr>) = 5
   \<and> runningTotal [\<lparr>productId = 1, quantity = 2\<rparr>, \<lparr>productId = 1, quantity = 3\<rparr>] = 5
   \<and> dialogTotalItems [\<lparr>productId = 1, quantity = 2\<rparr>, \<lparr>productId = 1, quantity = 3\<rparr>] = 2"
  by (simp add: tableTotalItems_def deliverySummary_def sumQuantity_def linesOf_def
      runningTotal_def dialogTotalItems_def emptyStore_def)

end
